theory Spec2Isabelle
  imports Main "HOL-Library.Word" "HOL-Library.AList" "HOL-Library.Sublist"
begin

section \<open>Values of the sound source component\<close>

text \<open>
  The C++ \<^verbatim>\<open>float\<close> fields are only stored and copied, never computed with: a float is
  its 32-bit pattern. \<^verbatim>\<open>uint8_t\<close> and \<^verbatim>\<open>int16_t\<close> are words of their width.
\<close>

type_synonym float32 = "32 word"

definition float_1_0 :: float32 where "float_1_0 = 0x3F800000"
definition float_minus_1_0 :: float32 where "float_minus_1_0 = 0xBF800000"
definition float_100_0 :: float32 where "float_100_0 = 0x42C80000"
definition float_0_0 :: float32 where "float_0_0 = 0"

text \<open>
  \<^verbatim>\<open>enum PlayState { Play, Pause, Stop }\<close>. The casts of the source are unchecked, so a
  \<^verbatim>\<open>PlayState\<close> can hold a number that names no enumerator (\<^verbatim>\<open>Sound::load\<close> produces one
  from a stored number other than 0, 1 and 2, and the \<^verbatim>\<open>switch\<close> of \<^verbatim>\<open>update\<close> has a
  \<^verbatim>\<open>default\<close> arm for it): it is \<open>Unnamed\<close> with its number. The numbers are those of an
  \<^verbatim>\<open>int16_t\<close>, the type the play state is stored and loaded as.
\<close>

typedef unnamed = "{w :: 16 word. w \<noteq> 0 \<and> w \<noteq> 1 \<and> w \<noteq> 2}"
  by (rule exI [of _ 3]) simp

datatype PlayState = Play | Pause | Stop | Unnamed unnamed

text \<open>The implicit conversion of a \<^verbatim>\<open>PlayState\<close> to \<^verbatim>\<open>int16_t\<close>.\<close>

fun int16_of_PlayState :: "PlayState \<Rightarrow> 16 word" where
  "int16_of_PlayState Play = 0"
| "int16_of_PlayState Pause = 1"
| "int16_of_PlayState Stop = 2"
| "int16_of_PlayState (Unnamed u) = Rep_unnamed u"

text \<open>\<^verbatim>\<open>static_cast<PlayState>(int16_t)\<close>\<close>

definition PlayState_of_int16 :: "16 word \<Rightarrow> PlayState" where
  "PlayState_of_int16 w =
     (if w = 0 then Play else if w = 1 then Pause
      else if w = 2 then Stop else Unnamed (Abs_unnamed w))"

text \<open>
  Modelled from the spec: \<^verbatim>\<open>Touchable\<close> (engine/touchable.h is not among the sources) is
  the dirty flag of the "dirty-flag diff-and-sync loop": \<^verbatim>\<open>touch()\<close> raises it,
  \<^verbatim>\<open>untouch()\<close> clears it, \<^verbatim>\<open>hasChanges()\<close> reads it. The value the flag has in a newly
  constructed object is not in the sources; it is the parameter \<open>t0\<close> of the constructors.
\<close>

record Touchable =
  m_hasChanges :: bool

definition hasChanges :: "'a Touchable_scheme \<Rightarrow> bool" where
  "hasChanges t = m_hasChanges t"

definition touch :: "'a Touchable_scheme \<Rightarrow> 'a Touchable_scheme" where
  "touch t = t\<lparr>m_hasChanges := True\<rparr>"

definition untouch :: "'a Touchable_scheme \<Rightarrow> 'a Touchable_scheme" where
  "untouch t = t\<lparr>m_hasChanges := False\<rparr>"

text \<open>\<^verbatim>\<open>struct Properties : public Touchable\<close>\<close>

record Properties = Touchable +
  playState :: PlayState
  loop :: bool
  volume :: float32
  maxDistance :: float32
  rolloffFactor :: float32
  referenceDistance :: float32
  priority :: "8 word"

definition Properties_default :: "bool \<Rightarrow> Properties" where
  "Properties_default t0 =
     \<lparr>m_hasChanges = t0, playState = Stop, loop = False, volume = float_1_0,
      maxDistance = float_minus_1_0, rolloffFactor = float_minus_1_0,
      referenceDistance = float_100_0, priority = 0\<rparr>"

text \<open>
  \<^verbatim>\<open>class Sound\<close>. \<open>m_sound\<close> is the pointer to the native \<^verbatim>\<open>OgreOggISound\<close>; \<open>None\<close> is
  \<^verbatim>\<open>nullptr\<close>.
\<close>

record Sound =
  m_properties :: Properties
  m_sound :: "nat option"
  m_filename :: string
  m_name :: string

definition Sound_ctor :: "bool \<Rightarrow> string \<Rightarrow> string \<Rightarrow> Sound" where
  "Sound_ctor t0 name filename =
     \<lparr>m_properties = Properties_default t0, m_sound = None,
      m_filename = filename, m_name = name\<rparr>"

definition Sound_default :: "bool \<Rightarrow> Sound" where
  "Sound_default t0 = Sound_ctor t0 [] []"

definition Sound_filename :: "Sound \<Rightarrow> string" where
  "Sound_filename s = m_filename s"

definition Sound_name :: "Sound \<Rightarrow> string" where
  "Sound_name s = m_name s"

definition Sound_play :: "Sound \<Rightarrow> Sound" where
  "Sound_play s = s\<lparr>m_properties := touch ((m_properties s)\<lparr>playState := Play\<rparr>)\<rparr>"

definition Sound_pause :: "Sound \<Rightarrow> Sound" where
  "Sound_pause s = s\<lparr>m_properties := touch ((m_properties s)\<lparr>playState := Pause\<rparr>)\<rparr>"

definition Sound_stop :: "Sound \<Rightarrow> Sound" where
  "Sound_stop s = s\<lparr>m_properties := touch ((m_properties s)\<lparr>playState := Stop\<rparr>)\<rparr>"

section \<open>The storage container\<close>

text \<open>
  Modelled from the spec: \<^verbatim>\<open>StorageContainer\<close> and \<^verbatim>\<open>StorageList\<close> (engine/serialization.h
  is not among the sources) are the "key-value serialization format": a container maps
  string keys to typed values, \<^verbatim>\<open>set\<close> writes the value of a key (replacing an earlier one),
  and \<^verbatim>\<open>get<T>(key, defaultValue)\<close> reads it, giving \<open>defaultValue\<close> (a value-initialised
  \<open>T\<close> when none is passed) where the key is absent or holds another type. A
  \<^verbatim>\<open>StorageList\<close> is a sequence of containers.
\<close>

datatype StorageValue =
    VString string
  | VBool bool
  | VInt16 "16 word"
  | VUInt8 "8 word"
  | VFloat float32
  | VList "(string \<times> StorageValue) list list"

type_synonym StorageContainer = "(string \<times> StorageValue) list"
type_synonym StorageList = "StorageContainer list"

definition StorageContainer_set ::
  "string \<Rightarrow> StorageValue \<Rightarrow> StorageContainer \<Rightarrow> StorageContainer" where
  "StorageContainer_set key v storage = AList.update key v storage"

definition get_string :: "StorageContainer \<Rightarrow> string \<Rightarrow> string \<Rightarrow> string" where
  "get_string storage key defaultValue =
     (case map_of storage key of Some (VString x) \<Rightarrow> x | _ \<Rightarrow> defaultValue)"

definition get_bool :: "StorageContainer \<Rightarrow> string \<Rightarrow> bool \<Rightarrow> bool" where
  "get_bool storage key defaultValue =
     (case map_of storage key of Some (VBool x) \<Rightarrow> x | _ \<Rightarrow> defaultValue)"

definition get_int16 :: "StorageContainer \<Rightarrow> string \<Rightarrow> 16 word \<Rightarrow> 16 word" where
  "get_int16 storage key defaultValue =
     (case map_of storage key of Some (VInt16 x) \<Rightarrow> x | _ \<Rightarrow> defaultValue)"

definition get_uint8 :: "StorageContainer \<Rightarrow> string \<Rightarrow> 8 word \<Rightarrow> 8 word" where
  "get_uint8 storage key defaultValue =
     (case map_of storage key of Some (VUInt8 x) \<Rightarrow> x | _ \<Rightarrow> defaultValue)"

definition get_float :: "StorageContainer \<Rightarrow> string \<Rightarrow> float32 \<Rightarrow> float32" where
  "get_float storage key defaultValue =
     (case map_of storage key of Some (VFloat x) \<Rightarrow> x | _ \<Rightarrow> defaultValue)"

definition get_StorageList :: "StorageContainer \<Rightarrow> string \<Rightarrow> StorageList \<Rightarrow> StorageList" where
  "get_StorageList storage key defaultValue =
     (case map_of storage key of Some (VList x) \<Rightarrow> x | _ \<Rightarrow> defaultValue)"

subsection \<open>Sound::load and Sound::storage\<close>

definition Sound_load :: "StorageContainer \<Rightarrow> Sound \<Rightarrow> Sound" where
  "Sound_load storage s =
     s\<lparr>m_filename := get_string storage ''filename'' [],
       m_name := get_string storage ''name'' [],
       m_properties := (m_properties s)
         \<lparr>playState := PlayState_of_int16
                         (get_int16 storage ''playState'' (int16_of_PlayState Stop)),
          loop := get_bool storage ''loop'' False,
          volume := get_float storage ''volume'' float_0_0,
          maxDistance := get_float storage ''maxDistance'' float_minus_1_0,
          rolloffFactor := get_float storage ''rolloffFactor'' float_minus_1_0,
          referenceDistance := get_float storage ''referenceDistance'' float_100_0,
          priority := get_uint8 storage ''priority'' 0\<rparr>\<rparr>"

definition Sound_storage :: "Sound \<Rightarrow> StorageContainer" where
  "Sound_storage s =
     (let storage = [];
          storage = StorageContainer_set ''filename'' (VString (m_filename s)) storage;
          storage = StorageContainer_set ''name'' (VString (m_name s)) storage;
          storage = StorageContainer_set ''playState''
                      (VInt16 (int16_of_PlayState (playState (m_properties s)))) storage;
          storage = StorageContainer_set ''loop'' (VBool (loop (m_properties s))) storage;
          storage = StorageContainer_set ''volume'' (VFloat (volume (m_properties s))) storage;
          storage = StorageContainer_set ''maxDistance''
                      (VFloat (maxDistance (m_properties s))) storage;
          storage = StorageContainer_set ''rolloffFactor''
                      (VFloat (rolloffFactor (m_properties s))) storage;
          storage = StorageContainer_set ''referenceDistance''
                      (VFloat (referenceDistance (m_properties s))) storage;
          storage = StorageContainer_set ''priority''
                      (VUInt8 (priority (m_properties s))) storage
      in storage)"

section \<open>The sound source component\<close>

text \<open>
  The component owns its sounds through \<^verbatim>\<open>std::unique_ptr<Sound>\<close> and hands out raw
  \<^verbatim>\<open>Sound*\<close>. The sounds live in an explicit store: \<open>objects\<close> maps the address of every
  live \<^verbatim>\<open>Sound\<close> to its value, and an address outside its domain is a dangling pointer.
  \<open>make_unique\<close> allocates at a fresh address; \<open>destroy\<close> is what the destructor of the
  owning \<^verbatim>\<open>unique_ptr\<close> does.
\<close>

record Memory =
  objects :: "nat \<rightharpoonup> Sound"
  next_addr :: nat

definition make_unique :: "Sound \<Rightarrow> Memory \<Rightarrow> nat \<times> Memory" where
  "make_unique s mem =
     (next_addr mem,
      mem\<lparr>objects := (objects mem)(next_addr mem \<mapsto> s), next_addr := Suc (next_addr mem)\<rparr>)"

definition destroy :: "nat \<Rightarrow> Memory \<Rightarrow> Memory" where
  "destroy a mem = mem\<lparr>objects := (objects mem)(a := None)\<rparr>"

text \<open>
  Modelled from the spec: \<^verbatim>\<open>TouchableValue<bool>\<close> (engine/touchable.h is not among the
  sources) is a value with the dirty flag: assigning to it stores the value and raises
  the flag, \<^verbatim>\<open>get()\<close> reads the value.
\<close>

record TouchableValue_bool = Touchable +
  m_value :: bool

definition TouchableValue_assign :: "bool \<Rightarrow> TouchableValue_bool \<Rightarrow> TouchableValue_bool" where
  "TouchableValue_assign v t = touch (t\<lparr>m_value := v\<rparr>)"

definition TouchableValue_get :: "TouchableValue_bool \<Rightarrow> bool" where
  "TouchableValue_get t = m_value t"

text \<open>
  \<^verbatim>\<open>class SoundSourceComponent\<close>. The \<^verbatim>\<open>std::unordered_map\<close> \<open>m_sounds\<close> is an association
  list from the name to the address of the owned sound, iterated in list order (the C++
  order is unspecified); the two \<^verbatim>\<open>std::list<Sound*>\<close> hold addresses.
\<close>

record SoundSourceComponent =
  m_relativeToListener :: TouchableValue_bool
  m_addedSounds :: "nat list"
  m_removedSounds :: "nat list"
  m_sounds :: "(string \<times> nat) list"

definition SoundSourceComponent_ctor :: "bool \<Rightarrow> SoundSourceComponent" where
  "SoundSourceComponent_ctor t0 =
     \<lparr>m_relativeToListener = \<lparr>m_hasChanges = t0, m_value = True\<rparr>,
      m_addedSounds = [], m_removedSounds = [], m_sounds = []\<rparr>"

text \<open>
  \<^verbatim>\<open>m_sounds.emplace(name, std::move(sound))\<close>: the pair is inserted when the key is new.
  When the key is present the map stays as it is, and the \<^verbatim>\<open>Sound\<close> that \<open>sound\<close> owned is
  destroyed with the \<^verbatim>\<open>unique_ptr\<close> (inside \<^verbatim>\<open>emplace\<close> or at the end of the caller's scope).
\<close>

definition emplace_sound ::
  "string \<Rightarrow> nat \<Rightarrow> (string \<times> nat) list \<Rightarrow> Memory \<Rightarrow> (string \<times> nat) list \<times> Memory" where
  "emplace_sound name a sounds mem =
     (case map_of sounds name of
        None \<Rightarrow> (sounds @ [(name, a)], mem)
      | Some _ \<Rightarrow> (sounds, destroy a mem))"

definition addSound ::
  "bool \<Rightarrow> string \<Rightarrow> string \<Rightarrow> SoundSourceComponent \<times> Memory
     \<Rightarrow> nat \<times> SoundSourceComponent \<times> Memory" where
  "addSound t0 name filename cm =
     (case cm of (c, mem) \<Rightarrow>
        (case make_unique (Sound_ctor t0 name filename) mem of (rawSound, mem1) \<Rightarrow>
           (case emplace_sound name rawSound (m_sounds c) mem1 of (sounds', mem2) \<Rightarrow>
              (rawSound,
               c\<lparr>m_sounds := sounds', m_addedSounds := m_addedSounds c @ [rawSound]\<rparr>,
               mem2))))"

text \<open>
  The loop of \<^verbatim>\<open>SoundSourceComponent::load\<close> over the stored sounds: a new \<^verbatim>\<open>Sound\<close> is
  made, loaded and emplaced under its name.
\<close>

fun load_sounds ::
  "bool \<Rightarrow> StorageList \<Rightarrow> (string \<times> nat) list \<times> Memory \<Rightarrow> (string \<times> nat) list \<times> Memory" where
  "load_sounds t0 [] sm = sm"
| "load_sounds t0 (soundStorage # rest) sm =
     (case sm of (sounds, mem) \<Rightarrow>
        (case make_unique (Sound_default t0) mem of (a, mem1) \<Rightarrow>
           (let sound = Sound_load soundStorage (Sound_default t0);
                mem2 = mem1\<lparr>objects := (objects mem1)(a \<mapsto> sound)\<rparr>
            in load_sounds t0 rest (emplace_sound (Sound_name sound) a sounds mem2))))"

text \<open>
  \<^verbatim>\<open>Component::load\<close> and \<^verbatim>\<open>Component::storage\<close> belong to the base class
  (engine/component.h is not among the sources). The base \<^verbatim>\<open>load\<close> cannot reach the fields of
  this class; the container the base \<^verbatim>\<open>storage()\<close> returns is the parameter \<open>base\<close>.
\<close>

definition SoundSourceComponent_load ::
  "bool \<Rightarrow> StorageContainer \<Rightarrow> SoundSourceComponent \<times> Memory
     \<Rightarrow> SoundSourceComponent \<times> Memory" where
  "SoundSourceComponent_load t0 storage cm =
     (case cm of (c, mem) \<Rightarrow>
        (let c1 = c\<lparr>m_relativeToListener :=
                     TouchableValue_assign (get_bool storage ''relativeToListener'' False)
                       (m_relativeToListener c)\<rparr>;
             sounds = get_StorageList storage ''sounds'' []
         in (case load_sounds t0 sounds (m_sounds c1, mem) of
               (sounds', mem') \<Rightarrow> (c1\<lparr>m_sounds := sounds'\<rparr>, mem'))))"

definition SoundSourceComponent_removeSound ::
  "string \<Rightarrow> SoundSourceComponent \<times> Memory \<Rightarrow> SoundSourceComponent \<times> Memory" where
  "SoundSourceComponent_removeSound name cm =
     (case cm of (c, mem) \<Rightarrow>
        (case map_of (m_sounds c) name of
           None \<Rightarrow> (c, mem)
         | Some a \<Rightarrow>
             (c\<lparr>m_removedSounds := m_removedSounds c @ [a],
                m_sounds := AList.delete name (m_sounds c)\<rparr>,
              destroy a mem)))"

datatype error = NullDereference | UseAfterFree

text \<open>
  The loop of \<^verbatim>\<open>SoundSourceComponent::storage\<close>: \<^verbatim>\<open>sounds.push_back(pair.second->storage())\<close>
  for every owned sound.
\<close>

fun storage_sounds ::
  "(string \<times> nat) list \<Rightarrow> Memory \<Rightarrow> StorageList \<Rightarrow> error + StorageList" where
  "storage_sounds [] mem sounds = Inr sounds"
| "storage_sounds (pair # rest) mem sounds =
     (case objects mem (snd pair) of
        None \<Rightarrow> Inl UseAfterFree
      | Some s \<Rightarrow> storage_sounds rest mem (sounds @ [Sound_storage s]))"

text \<open>
  \<^verbatim>\<open>SoundSourceComponent::storage\<close>. The local list \<open>sounds\<close> is filled and then goes out of
  scope: the function returns \<open>storage\<close>, into which the list was never set.
\<close>

definition SoundSourceComponent_storage ::
  "StorageContainer \<Rightarrow> SoundSourceComponent \<Rightarrow> Memory \<Rightarrow> error + StorageContainer" where
  "SoundSourceComponent_storage base c mem =
     (let storage = base;
          storage = StorageContainer_set ''relativeToListener''
                      (VBool (TouchableValue_get (m_relativeToListener c))) storage
      in (case storage_sounds (m_sounds c) mem [] of
            Inl e \<Rightarrow> Inl e
          | Inr sounds \<Rightarrow> Inr storage))"

section \<open>The sound source system\<close>

type_synonym EntityId = nat

text \<open>
  Modelled from the spec: \<^verbatim>\<open>OgreSceneNodeComponent\<close> (ogre/scene_node_system.h is not among
  the sources) holds the scene node of the entity, which may be missing ("a null check
  guards against a missing scene node"). The system reads its field \<^verbatim>\<open>m_sceneNode\<close> only,
  a pointer to an \<^verbatim>\<open>Ogre::SceneNode\<close>; \<open>None\<close> is the null pointer.
\<close>

record OgreSceneNodeComponent =
  m_sceneNode :: "nat option"

text \<open>
  Modelled from the spec: \<^verbatim>\<open>EntityFilter\<close> (engine/entity_filter.h is not among the
  sources) is what lets the system "detect added/removed entities": it holds the entities
  that have both components, those added and those removed since the changes were last
  cleared, and \<^verbatim>\<open>clearChanges()\<close> empties the latter two. \<^verbatim>\<open>update\<close> does not change a
  component itself (only the sounds it points to), so an entry holds the components by
  value.
\<close>

record EntityFilter =
  entities :: "(EntityId \<times> OgreSceneNodeComponent \<times> SoundSourceComponent) list"
  addedEntities :: "(EntityId \<times> OgreSceneNodeComponent \<times> SoundSourceComponent) list"
  removedEntities :: "EntityId list"

definition clearChanges :: "EntityFilter \<Rightarrow> EntityFilter" where
  "clearChanges f = f\<lparr>addedEntities := [], removedEntities := []\<rparr>"

text \<open>
  The native sound library and the scene graph are outside the repository. The model
  records every call the system makes into them, in order, with its arguments:
  \<^verbatim>\<open>createSound(name, file, stream, loop, preBuffer)\<close>, \<^verbatim>\<open>destroySound\<close>, the
  \<^verbatim>\<open>attachObject\<close> and \<^verbatim>\<open>detachObject\<close> of a scene node, and the setters and the
  \<^verbatim>\<open>play\<close>, \<^verbatim>\<open>pause\<close>, \<^verbatim>\<open>stop\<close> of a native sound. (The line written to \<^verbatim>\<open>std::cout\<close> by
  \<^verbatim>\<open>restoreSound\<close> is not recorded.)
\<close>

datatype NativeCall =
    CreateSound string string bool bool bool
  | DestroySound nat
  | AttachObject nat nat
  | DetachObject nat nat
  | SetVolume nat float32
  | SetMaxDistance nat float32
  | SetRolloffFactor nat float32
  | SetReferenceDistance nat float32
  | SetPriority nat "8 word"
  | PlayCall nat
  | PauseCall nat
  | StopCall nat

text \<open>
  What the library answers is a parameter of the model: the pointer \<^verbatim>\<open>createSound\<close>
  returns (\<open>None\<close> is null) and the node \<^verbatim>\<open>getParentSceneNode\<close> returns, each as a function
  of the calls made so far.
\<close>

record OgreOggSound =
  createSound_result ::
    "NativeCall list \<Rightarrow> string \<Rightarrow> string \<Rightarrow> bool \<Rightarrow> bool \<Rightarrow> bool \<Rightarrow> nat option"
  getParentSceneNode_result :: "NativeCall list \<Rightarrow> nat \<Rightarrow> nat option"

text \<open>
  \<^verbatim>\<open>SoundSourceSystem::Implementation\<close> with the store of the sounds and the calls made.
  \<open>m_sounds_impl\<close> is the member \<^verbatim>\<open>m_sounds\<close> of the implementation, from the entity to
  the native sounds by name.
\<close>

record Implementation =
  memory :: Memory
  m_entities :: EntityFilter
  m_sounds_impl :: "(EntityId \<times> (string \<times> nat option) list) list"
  calls :: "NativeCall list"

text \<open>\<^verbatim>\<open>m_sounds[entityId]\<close>: \<^verbatim>\<open>operator[]\<close> inserts an empty map for a new key.\<close>

definition index_entity ::
  "EntityId \<Rightarrow> (EntityId \<times> (string \<times> nat option) list) list
     \<Rightarrow> (EntityId \<times> (string \<times> nat option) list) list" where
  "index_entity entityId m =
     (case map_of m entityId of None \<Rightarrow> m @ [(entityId, [])] | Some _ \<Rightarrow> m)"

definition at_entity ::
  "EntityId \<Rightarrow> (EntityId \<times> (string \<times> nat option) list) list \<Rightarrow> (string \<times> nat option) list" where
  "at_entity entityId m = (case map_of m entityId of None \<Rightarrow> [] | Some inner \<Rightarrow> inner)"

definition emplace_native ::
  "string \<Rightarrow> nat option \<Rightarrow> (string \<times> nat option) list \<Rightarrow> (string \<times> nat option) list" where
  "emplace_native name p inner =
     (case map_of inner name of None \<Rightarrow> inner @ [(name, p)] | Some _ \<Rightarrow> inner)"

definition Impl_removeSound ::
  "OgreOggSound \<Rightarrow> nat option \<Rightarrow> Implementation \<Rightarrow> error + Implementation" where
  "Impl_removeSound lib sound w =
     (case sound of
        None \<Rightarrow> Inr w
      | Some p \<Rightarrow>
          (case getParentSceneNode_result lib (calls w) p of
             None \<Rightarrow> Inl NullDereference
           | Some sceneNode \<Rightarrow>
               Inr (w\<lparr>calls := calls w @ [DetachObject sceneNode p, DestroySound p]\<rparr>)))"

fun removeSounds_loop ::
  "OgreOggSound \<Rightarrow> (string \<times> nat option) list \<Rightarrow> Implementation \<Rightarrow> error + Implementation" where
  "removeSounds_loop lib [] w = Inr w"
| "removeSounds_loop lib (pair # rest) w =
     (case Impl_removeSound lib (snd pair) w of
        Inl e \<Rightarrow> Inl e
      | Inr w' \<Rightarrow> removeSounds_loop lib rest w')"

definition removeSoundsForEntity ::
  "OgreOggSound \<Rightarrow> EntityId \<Rightarrow> Implementation \<Rightarrow> error + Implementation" where
  "removeSoundsForEntity lib entityId w =
     (let w1 = w\<lparr>m_sounds_impl := index_entity entityId (m_sounds_impl w)\<rparr>
      in removeSounds_loop lib (at_entity entityId (m_sounds_impl w1)) w1)"

definition restoreSound ::
  "OgreOggSound \<Rightarrow> EntityId \<Rightarrow> OgreSceneNodeComponent \<Rightarrow> nat \<Rightarrow> Implementation
     \<Rightarrow> error + Implementation" where
  "restoreSound lib entityId sceneNodeComponent sound w =
     (case m_sceneNode sceneNodeComponent of
        None \<Rightarrow> Inr w
      | Some sceneNode \<Rightarrow>
          (case objects (memory w) sound of
             None \<Rightarrow> Inl UseAfterFree
           | Some s \<Rightarrow>
               (let w1 = w\<lparr>calls := calls w @
                           [CreateSound (Sound_name s) (Sound_filename s) True
                              (loop (m_properties s)) True]\<rparr>
                in (case createSound_result lib (calls w) (Sound_name s) (Sound_filename s)
                          True (loop (m_properties s)) True of
                      Some ogreSound \<Rightarrow>
                        Inr (w1\<lparr>memory := (memory w1)
                                  \<lparr>objects := (objects (memory w1))
                                     (sound \<mapsto> s\<lparr>m_sound := Some ogreSound\<rparr>)\<rparr>,
                                m_sounds_impl :=
                                  AList.update entityId
                                    (emplace_native (Sound_name s) (Some ogreSound)
                                       (at_entity entityId (m_sounds_impl w1)))
                                    (m_sounds_impl w1),
                                calls := calls w1 @ [AttachObject sceneNode ogreSound]\<rparr>)
                    | None \<Rightarrow> Inr w1))))"

text \<open>The inner loop of the added entities: \<^verbatim>\<open>restoreSound\<close> for every sound of a component.\<close>

fun restoreSounds_loop ::
  "OgreOggSound \<Rightarrow> EntityId \<Rightarrow> OgreSceneNodeComponent \<Rightarrow> (string \<times> nat) list
     \<Rightarrow> Implementation \<Rightarrow> error + Implementation" where
  "restoreSounds_loop lib entityId sceneNodeComponent [] w = Inr w"
| "restoreSounds_loop lib entityId sceneNodeComponent (pair # rest) w =
     (case restoreSound lib entityId sceneNodeComponent (snd pair) w of
        Inl e \<Rightarrow> Inl e
      | Inr w' \<Rightarrow> restoreSounds_loop lib entityId sceneNodeComponent rest w')"

fun removedEntities_loop ::
  "OgreOggSound \<Rightarrow> EntityId list \<Rightarrow> Implementation \<Rightarrow> error + Implementation" where
  "removedEntities_loop lib [] w = Inr w"
| "removedEntities_loop lib (entityId # rest) w =
     (case removeSoundsForEntity lib entityId w of
        Inl e \<Rightarrow> Inl e
      | Inr w' \<Rightarrow> removedEntities_loop lib rest w')"

fun addedEntities_loop ::
  "OgreOggSound \<Rightarrow> (EntityId \<times> OgreSceneNodeComponent \<times> SoundSourceComponent) list
     \<Rightarrow> Implementation \<Rightarrow> error + Implementation" where
  "addedEntities_loop lib [] w = Inr w"
| "addedEntities_loop lib (v # rest) w =
     (case v of (entityId, sceneNodeComponent, soundSourceComponent) \<Rightarrow>
        (case restoreSounds_loop lib entityId sceneNodeComponent
                (m_sounds soundSourceComponent) w of
           Inl e \<Rightarrow> Inl e
         | Inr w' \<Rightarrow> addedEntities_loop lib rest w'))"

text \<open>
  The calls of the branch \<^verbatim>\<open>if (sound->m_properties.hasChanges())\<close> on the native sound
  \<open>ogreSound\<close>, in the order of the source: the five setters, then the \<^verbatim>\<open>switch\<close> on the
  play state, whose \<^verbatim>\<open>default\<close> arm makes no call.
\<close>

definition push_calls :: "nat \<Rightarrow> Properties \<Rightarrow> NativeCall list" where
  "push_calls ogreSound properties =
     [SetVolume ogreSound (volume properties),
      SetMaxDistance ogreSound (maxDistance properties),
      SetRolloffFactor ogreSound (rolloffFactor properties),
      SetReferenceDistance ogreSound (referenceDistance properties),
      SetPriority ogreSound (priority properties)]
     @ (case playState properties of
          Play \<Rightarrow> [PlayCall ogreSound]
        | Pause \<Rightarrow> [PauseCall ogreSound]
        | Stop \<Rightarrow> [StopCall ogreSound]
        | Unnamed _ \<Rightarrow> [])"

text \<open>The body of the innermost loop of \<^verbatim>\<open>update\<close>, for one sound of a tracked entity.\<close>

definition sync_sound ::
  "OgreOggSound \<Rightarrow> EntityId \<Rightarrow> OgreSceneNodeComponent \<Rightarrow> nat \<Rightarrow> Implementation
     \<Rightarrow> error + Implementation" where
  "sync_sound lib entityId sceneNodeComponent sound w =
     (case objects (memory w) sound of
        None \<Rightarrow> Inl UseAfterFree
      | Some s0 \<Rightarrow>
          (case (if m_sound s0 = None
                 then restoreSound lib entityId sceneNodeComponent sound w
                 else Inr w) of
             Inl e \<Rightarrow> Inl e
           | Inr w1 \<Rightarrow>
               (case objects (memory w1) sound of
                  None \<Rightarrow> Inl UseAfterFree
                | Some s \<Rightarrow>
                    if hasChanges (m_properties s) then
                      (case m_sound s of
                         None \<Rightarrow> Inl NullDereference
                       | Some ogreSound \<Rightarrow>
                           Inr (w1\<lparr>calls := calls w1 @ push_calls ogreSound (m_properties s),
                                   memory := (memory w1)
                                     \<lparr>objects := (objects (memory w1))
                                        (sound \<mapsto> s\<lparr>m_properties :=
                                                       untouch (m_properties s)\<rparr>)\<rparr>\<rparr>))
                    else Inr w1)))"

fun sync_sounds_loop ::
  "OgreOggSound \<Rightarrow> EntityId \<Rightarrow> OgreSceneNodeComponent \<Rightarrow> (string \<times> nat) list
     \<Rightarrow> Implementation \<Rightarrow> error + Implementation" where
  "sync_sounds_loop lib entityId sceneNodeComponent [] w = Inr w"
| "sync_sounds_loop lib entityId sceneNodeComponent (pair # rest) w =
     (case sync_sound lib entityId sceneNodeComponent (snd pair) w of
        Inl e \<Rightarrow> Inl e
      | Inr w' \<Rightarrow> sync_sounds_loop lib entityId sceneNodeComponent rest w')"

fun entities_loop ::
  "OgreOggSound \<Rightarrow> (EntityId \<times> OgreSceneNodeComponent \<times> SoundSourceComponent) list
     \<Rightarrow> Implementation \<Rightarrow> error + Implementation" where
  "entities_loop lib [] w = Inr w"
| "entities_loop lib (v # rest) w =
     (case v of (entityId, sceneNodeComponent, soundSourceComponent) \<Rightarrow>
        (case sync_sounds_loop lib entityId sceneNodeComponent
                (m_sounds soundSourceComponent) w of
           Inl e \<Rightarrow> Inl e
         | Inr w' \<Rightarrow> entities_loop lib rest w'))"

text \<open>\<^verbatim>\<open>SoundSourceSystem::update\<close>\<close>

definition update :: "OgreOggSound \<Rightarrow> Implementation \<Rightarrow> error + Implementation" where
  "update lib w =
     (case removedEntities_loop lib (removedEntities (m_entities w)) w of
        Inl e \<Rightarrow> Inl e
      | Inr w1 \<Rightarrow>
          (case addedEntities_loop lib (addedEntities (m_entities w1)) w1 of
             Inl e \<Rightarrow> Inl e
           | Inr w2 \<Rightarrow>
               (let w3 = w2\<lparr>m_entities := clearChanges (m_entities w2)\<rparr>
                in entities_loop lib (entities (m_entities w3)) w3)))"

section \<open>Relations between the states of the system\<close>




















section \<open>Example states\<close>

text \<open>
  One entity (1) with a scene node component and a sound source component that owns the
  sound \<open>a\<close> at address 0, and a native sound recorded for entity 2. The library of
  \<open>ex_lib_ok\<close> creates the native sound 5 and reports the parent node 4; the library of
  \<open>ex_lib_null\<close> returns null from \<^verbatim>\<open>createSound\<close>.
\<close>

definition empty_Memory :: Memory where
  "empty_Memory = \<lparr>objects = Map.empty, next_addr = 0\<rparr>"

definition ex_sound_played :: Sound where
  "ex_sound_played = Sound_play (Sound_ctor False ''a'' ''a.ogg'')"

definition ex_sound_quiet :: Sound where
  "ex_sound_quiet = Sound_ctor False ''a'' ''a.ogg''"

definition ex_component :: SoundSourceComponent where
  "ex_component = (SoundSourceComponent_ctor False)\<lparr>m_sounds := [(''a'', 0)]\<rparr>"

definition ex_memory :: "Sound \<Rightarrow> Memory" where
  "ex_memory s = \<lparr>objects = [0 \<mapsto> s], next_addr = 1\<rparr>"

definition ex_lib_ok :: OgreOggSound where
  "ex_lib_ok = \<lparr>createSound_result = (\<lambda>cs name file stream lp pre. Some 5),
                 getParentSceneNode_result = (\<lambda>cs p. Some 4)\<rparr>"

definition ex_lib_null :: OgreOggSound where
  "ex_lib_null = \<lparr>createSound_result = (\<lambda>cs name file stream lp pre. None),
                   getParentSceneNode_result = (\<lambda>cs p. None)\<rparr>"

definition ex_world :: "Sound \<Rightarrow> nat option \<Rightarrow> EntityId list \<Rightarrow> Implementation" where
  "ex_world s node removed =
     \<lparr>memory = ex_memory s,
      m_entities = \<lparr>entities = [(1, \<lparr>m_sceneNode = node\<rparr>, ex_component)],
                    addedEntities = [(1, \<lparr>m_sceneNode = node\<rparr>, ex_component)],
                    removedEntities = removed\<rparr>,
      m_sounds_impl = [(2, [(''b'', Some 9)])],
      calls = []\<rparr>"














lemmas ex_defs = ex_world_def ex_lib_ok_def ex_lib_null_def ex_component_def
  ex_memory_def ex_sound_played_def ex_sound_quiet_def empty_Memory_def
  SoundSourceComponent_ctor_def Sound_ctor_def Sound_default_def
  Sound_play_def Properties_default_def touch_def untouch_def hasChanges_def

lemmas update_defs = update_def removeSoundsForEntity_def Impl_removeSound_def restoreSound_def
  sync_sound_def push_calls_def clearChanges_def index_entity_def at_entity_def
  emplace_native_def Sound_name_def Sound_filename_def Let_def



section \<open>Sounds and their storage\<close>

text \<open>
  Claim C7. A sound written by \<^verbatim>\<open>Sound::storage\<close> and read by \<^verbatim>\<open>Sound::load\<close> into a
  default-constructed sound comes back with the same name, filename, play state, loop
  flag, volume, maximal distance, rolloff factor, reference distance and priority.
\<close>

theorem Sound_storage_load_roundtrip:
  "\<exists>s'. Sound_load (Sound_storage s) (Sound_default t0) = s'
     \<and> m_name s' = m_name s \<and> m_filename s' = m_filename s
     \<and> playState (m_properties s') = playState (m_properties s)
     \<and> loop (m_properties s') = loop (m_properties s)
     \<and> volume (m_properties s') = volume (m_properties s)
     \<and> maxDistance (m_properties s') = maxDistance (m_properties s)
     \<and> rolloffFactor (m_properties s') = rolloffFactor (m_properties s)
     \<and> referenceDistance (m_properties s') = referenceDistance (m_properties s)
     \<and> priority (m_properties s') = priority (m_properties s)"
proof -
  have "PlayState_of_int16 (int16_of_PlayState ps) = ps" for ps
  proof (cases ps)
    case (Unnamed u)
    from Rep_unnamed [of u] show ?thesis
      by (simp add: Unnamed PlayState_of_int16_def Rep_unnamed_inverse)
  qed (simp_all add: PlayState_of_int16_def)
  then show ?thesis
    by (simp add: Sound_storage_def Sound_load_def StorageContainer_set_def
        get_string_def get_bool_def get_int16_def get_uint8_def get_float_def)
qed

text \<open>
  Claim C9. \<^verbatim>\<open>play()\<close>, \<^verbatim>\<open>pause()\<close> and \<^verbatim>\<open>stop()\<close> set the play state to \<open>Play\<close>, \<open>Pause\<close>
  and \<open>Stop\<close>, each raises the dirty flag of the properties, and each leaves the name, the
  filename, the native pointer and the other properties as they were.
\<close>

theorem Sound_play_pause_stop:
  "playState (m_properties (Sound_play s)) = Play
   \<and> hasChanges (m_properties (Sound_play s))
   \<and> m_name (Sound_play s) = m_name s
   \<and> m_filename (Sound_play s) = m_filename s
   \<and> m_sound (Sound_play s) = m_sound s
   \<and> loop (m_properties (Sound_play s)) = loop (m_properties s)
   \<and> volume (m_properties (Sound_play s)) = volume (m_properties s)
   \<and> maxDistance (m_properties (Sound_play s)) = maxDistance (m_properties s)
   \<and> rolloffFactor (m_properties (Sound_play s)) = rolloffFactor (m_properties s)
   \<and> referenceDistance (m_properties (Sound_play s)) = referenceDistance (m_properties s)
   \<and> priority (m_properties (Sound_play s)) = priority (m_properties s)
   \<and> playState (m_properties (Sound_pause s)) = Pause
   \<and> hasChanges (m_properties (Sound_pause s))
   \<and> m_name (Sound_pause s) = m_name s
   \<and> m_filename (Sound_pause s) = m_filename s
   \<and> m_sound (Sound_pause s) = m_sound s
   \<and> loop (m_properties (Sound_pause s)) = loop (m_properties s)
   \<and> volume (m_properties (Sound_pause s)) = volume (m_properties s)
   \<and> maxDistance (m_properties (Sound_pause s)) = maxDistance (m_properties s)
   \<and> rolloffFactor (m_properties (Sound_pause s)) = rolloffFactor (m_properties s)
   \<and> referenceDistance (m_properties (Sound_pause s)) = referenceDistance (m_properties s)
   \<and> priority (m_properties (Sound_pause s)) = priority (m_properties s)
   \<and> playState (m_properties (Sound_stop s)) = Stop
   \<and> hasChanges (m_properties (Sound_stop s))
   \<and> m_name (Sound_stop s) = m_name s
   \<and> m_filename (Sound_stop s) = m_filename s
   \<and> m_sound (Sound_stop s) = m_sound s
   \<and> loop (m_properties (Sound_stop s)) = loop (m_properties s)
   \<and> volume (m_properties (Sound_stop s)) = volume (m_properties s)
   \<and> maxDistance (m_properties (Sound_stop s)) = maxDistance (m_properties s)
   \<and> rolloffFactor (m_properties (Sound_stop s)) = rolloffFactor (m_properties s)
   \<and> referenceDistance (m_properties (Sound_stop s)) = referenceDistance (m_properties s)
   \<and> priority (m_properties (Sound_stop s)) = priority (m_properties s)"
  by (simp add: Sound_play_def Sound_pause_def Sound_stop_def touch_def hasChanges_def)

section \<open>The sounds of a component\<close>

text \<open>
  Every operation of the component keeps the names of \<open>m_sounds\<close> distinct, as the keys of
  the \<^verbatim>\<open>std::unordered_map\<close> are.
\<close>

lemma emplace_sound_distinct:
  "distinct (map fst sounds) \<Longrightarrow> distinct (map fst (fst (emplace_sound name a sounds mem)))"
  by (auto simp: emplace_sound_def map_of_eq_None_iff split: option.splits)

lemma addSound_distinct:
  "distinct (map fst (m_sounds c))
   \<Longrightarrow> distinct (map fst (m_sounds (fst (snd (addSound t0 name filename (c, mem))))))"
  using emplace_sound_distinct [of "m_sounds c" name "next_addr mem"
      "snd (make_unique (Sound_ctor t0 name filename) mem)"]
  by (auto simp: addSound_def make_unique_def split: prod.splits)

lemma removeSound_distinct:
  "distinct (map fst (m_sounds c))
   \<Longrightarrow> distinct (map fst (m_sounds (fst (SoundSourceComponent_removeSound name (c, mem)))))"
  by (auto simp: SoundSourceComponent_removeSound_def AList.distinct_delete split: option.splits)

lemma load_sounds_distinct:
  "load_sounds t0 xs (sounds, mem) = (sounds', mem') \<Longrightarrow> distinct (map fst sounds)
   \<Longrightarrow> distinct (map fst sounds')"
proof (induction xs arbitrary: sounds mem)
  case Nil
  then show ?case by simp
next
  case (Cons x xs)
  define sound where "sound = Sound_load x (Sound_default t0)"
  obtain a mem1 where m: "make_unique (Sound_default t0) mem = (a, mem1)"
    by (cases "make_unique (Sound_default t0) mem")
  define mem2 where "mem2 = mem1\<lparr>objects := (objects mem1)(a \<mapsto> sound)\<rparr>"
  obtain sounds1 mem3 where e: "emplace_sound (Sound_name sound) a sounds mem2 = (sounds1, mem3)"
    by (cases "emplace_sound (Sound_name sound) a sounds mem2")
  from Cons.prems(1) m e have r: "load_sounds t0 xs (sounds1, mem3) = (sounds', mem')"
    by (simp add: Let_def sound_def mem2_def)
  from emplace_sound_distinct [OF Cons.prems(2), of "Sound_name sound" a mem2] e
  have "distinct (map fst sounds1)" by simp
  from Cons.IH [OF r this] show ?case .
qed

lemma SoundSourceComponent_load_distinct:
  "SoundSourceComponent_load t0 storage (c, mem) = (c', mem')
   \<Longrightarrow> distinct (map fst (m_sounds c)) \<Longrightarrow> distinct (map fst (m_sounds c'))"
  by (auto simp: SoundSourceComponent_load_def Let_def split: prod.splits
      dest: load_sounds_distinct)

lemma delete_distinct_remove1:
  "distinct (map fst al) \<Longrightarrow> map_of al k = Some v
   \<Longrightarrow> Suc (length (AList.delete k al)) = length al
       \<and> set (AList.delete k al) = set al - {(k, v)}"
proof (induction al)
  case Nil
  then show ?case by simp
next
  case (Cons x al)
  obtain k' v' where x: "x = (k', v')" by (cases x)
  show ?case
  proof (cases "k' = k")
    case True
    with Cons.prems x have "k \<notin> fst ` set al" and v: "v' = v" by auto
    then have "AList.delete k al = al"
      by (simp add: AList.delete_eq filter_id_conv) (auto simp: image_iff)
    with True x v \<open>k \<notin> fst ` set al\<close> show ?thesis
      by (auto simp: AList.delete_eq image_iff)
  next
    case False
    with Cons x show ?thesis by (auto simp: AList.delete_eq)
  qed
qed

text \<open>
  Claim C10. \<^verbatim>\<open>removeSound(name)\<close> with a name the component does not hold changes nothing.
  With a name it holds, for the sound at address \<open>a\<close>: the entry of the name leaves
  \<open>m_sounds\<close> and every other entry stays (one pair fewer in the collection), \<open>a\<close> is
  appended to \<open>m_removedSounds\<close>, the other fields stay, and in the store only the object
  at \<open>a\<close> goes (the \<^verbatim>\<open>unique_ptr\<close> of the erased entry destroys it).
\<close>

theorem removeSound_effect:
  "(map_of (m_sounds c) name = None
      \<longrightarrow> SoundSourceComponent_removeSound name (c, mem) = (c, mem))
   \<and> (\<forall>a. map_of (m_sounds c) name = Some a
        \<longrightarrow> (\<exists>c' mem'. SoundSourceComponent_removeSound name (c, mem) = (c', mem')
              \<and> map_of (m_sounds c') = (map_of (m_sounds c))(name := None)
              \<and> (distinct (map fst (m_sounds c))
                   \<longrightarrow> Suc (length (m_sounds c')) = length (m_sounds c)
                       \<and> set (m_sounds c') = set (m_sounds c) - {(name, a)})
              \<and> m_removedSounds c' = m_removedSounds c @ [a]
              \<and> m_addedSounds c' = m_addedSounds c
              \<and> m_relativeToListener c' = m_relativeToListener c
              \<and> objects mem' = (objects mem)(a := None)
              \<and> next_addr mem' = next_addr mem))"
proof -
  have "map_of (AList.delete name (m_sounds c)) = (map_of (m_sounds c))(name := None)"
    by (rule ext) (simp add: AList.delete_conv)
  then show ?thesis
    by (auto simp: SoundSourceComponent_removeSound_def destroy_def
        dest: delete_distinct_remove1)
qed

theorem removeSound_effect_witness:
  "map_of (m_sounds ex_component) ''zz'' = None
   \<and> SoundSourceComponent_removeSound ''zz'' (ex_component, ex_memory ex_sound_quiet)
       = (ex_component, ex_memory ex_sound_quiet)
   \<and> map_of (m_sounds ex_component) ''a'' = Some 0
   \<and> distinct (map fst (m_sounds ex_component))
   \<and> (\<exists>c' mem'. SoundSourceComponent_removeSound ''a'' (ex_component, ex_memory ex_sound_quiet)
                   = (c', mem')
         \<and> m_sounds c' = [] \<and> m_removedSounds c' = [0] \<and> objects mem' 0 = None)"
  using removeSound_effect [of ex_component "''zz''" "ex_memory ex_sound_quiet"]
    removeSound_effect [of ex_component "''a''" "ex_memory ex_sound_quiet"]
  by (auto simp add: ex_defs)

text \<open>
  Claim C1. \<^verbatim>\<open>SoundSourceComponent::storage\<close> fills a local list with the storage of every
  sound and never sets it into the container it returns. For the component that owns the
  sound \<open>a\<close> the container holds \<open>relativeToListener\<close> only, and a fresh component loaded
  from it owns no sound.
\<close>

theorem SoundSourceComponent_storage_loses_sounds:
  "m_sounds ex_component = [(''a'', 0)]
   \<and> objects (ex_memory ex_sound_played) 0 = Some ex_sound_played
   \<and> SoundSourceComponent_storage [] ex_component (ex_memory ex_sound_played)
       = Inr [(''relativeToListener'', VBool True)]
   \<and> (case SoundSourceComponent_load False [(''relativeToListener'', VBool True)]
              (SoundSourceComponent_ctor False, empty_Memory) of
         (c', mem') \<Rightarrow>
           m_sounds c' = [] \<and> objects mem' = Map.empty
           \<and> TouchableValue_get (m_relativeToListener c') = True)"
  by (simp add: ex_defs SoundSourceComponent_storage_def SoundSourceComponent_load_def
      StorageContainer_set_def TouchableValue_get_def TouchableValue_assign_def
      get_bool_def get_StorageList_def Let_def)

text \<open>
  Claim C3. \<^verbatim>\<open>addSound\<close> with a name the component already holds: the map keeps its one
  entry of the name (the sound at address 0), and the pointer that is returned and queued
  in \<open>m_addedSounds\<close> is the address 1 of the new \<^verbatim>\<open>Sound\<close>, which is destroyed when the
  call returns: it is in the store no more.
\<close>

theorem addSound_duplicate_name_dangling:
  "(case addSound False ''a'' ''b.ogg''
           (snd (addSound False ''a'' ''a.ogg'' (SoundSourceComponent_ctor False, empty_Memory))) of
      (rawSound, c, mem) \<Rightarrow>
        rawSound = 1 \<and> objects mem rawSound = None \<and> m_sounds c = [(''a'', 0)]
        \<and> m_addedSounds c = [0, 1]
        \<and> objects mem 0 = Some (Sound_ctor False ''a'' ''a.ogg''))"
  by (simp add: ex_defs addSound_def make_unique_def emplace_sound_def destroy_def)


section \<open>Restoring a sound\<close>

text \<open>
  Claim C4. With a null scene node \<^verbatim>\<open>restoreSound\<close> returns at once: the whole state
  (the sounds, the map of the native sounds, the calls made into the library) is as
  before.
\<close>

theorem restoreSound_null_scene_node:
  "m_sceneNode sceneNodeComponent = None
   \<Longrightarrow> restoreSound lib entityId sceneNodeComponent sound w = Inr w"
  by (simp add: restoreSound_def)

theorem restoreSound_null_scene_node_witness:
  "m_sceneNode \<lparr>m_sceneNode = None\<rparr> = None
   \<and> restoreSound ex_lib_ok 1 \<lparr>m_sceneNode = None\<rparr> 0 (ex_world ex_sound_played None [])
       = Inr (ex_world ex_sound_played None [])"
  using restoreSound_null_scene_node
    [of "\<lparr>m_sceneNode = None\<rparr>" ex_lib_ok 1 0 "ex_world ex_sound_played None []"]
  by simp

text \<open>
  Claim C5. When \<^verbatim>\<open>createSound\<close> returns null, \<^verbatim>\<open>restoreSound\<close> returns normally: the
  sound is as it was (its \<open>m_sound\<close> with it), the map of the native sounds and the entity
  filter are as they were, and the one call made is the \<^verbatim>\<open>createSound\<close> itself; nothing is
  attached.
\<close>

theorem restoreSound_create_failed:
  "m_sceneNode sceneNodeComponent = Some sceneNode
   \<Longrightarrow> objects (memory w) sound = Some s
   \<Longrightarrow> createSound_result lib (calls w) (Sound_name s) (Sound_filename s) True
         (loop (m_properties s)) True = None
   \<Longrightarrow> \<exists>w'. restoreSound lib entityId sceneNodeComponent sound w = Inr w'
         \<and> memory w' = memory w
         \<and> objects (memory w') sound = Some s
         \<and> m_sounds_impl w' = m_sounds_impl w
         \<and> m_entities w' = m_entities w
         \<and> calls w' = calls w @ [CreateSound (Sound_name s) (Sound_filename s) True
                                   (loop (m_properties s)) True]"
  by (simp add: restoreSound_def Let_def)

theorem restoreSound_create_failed_witness:
  "m_sceneNode \<lparr>m_sceneNode = Some 3\<rparr> = Some 3
   \<and> objects (memory (ex_world ex_sound_quiet (Some 3) [])) 0 = Some ex_sound_quiet
   \<and> createSound_result ex_lib_null (calls (ex_world ex_sound_quiet (Some 3) []))
        (Sound_name ex_sound_quiet) (Sound_filename ex_sound_quiet) True
        (loop (m_properties ex_sound_quiet)) True = None
   \<and> m_sound ex_sound_quiet = None
   \<and> (\<exists>w'. restoreSound ex_lib_null 1 \<lparr>m_sceneNode = Some 3\<rparr> 0
               (ex_world ex_sound_quiet (Some 3) []) = Inr w'
         \<and> objects (memory w') 0 = Some ex_sound_quiet
         \<and> m_sounds_impl w' = [(2, [(''b'', Some 9)])]
         \<and> calls w' = [CreateSound ''a'' ''a.ogg'' True False True])"
proof -
  have h1: "m_sceneNode \<lparr>m_sceneNode = Some 3\<rparr> = Some 3" by simp
  have h2: "objects (memory (ex_world ex_sound_quiet (Some 3) [])) 0 = Some ex_sound_quiet"
    by (simp add: ex_defs)
  have h3: "createSound_result ex_lib_null (calls (ex_world ex_sound_quiet (Some 3) []))
        (Sound_name ex_sound_quiet) (Sound_filename ex_sound_quiet) True
        (loop (m_properties ex_sound_quiet)) True = None"
    by (simp add: ex_defs)
  from restoreSound_create_failed [OF h1 h2 h3, of 1] h1 h2 h3 show ?thesis
    by (auto simp add: ex_defs Sound_name_def Sound_filename_def)
qed

section \<open>The synchronisation loop of update\<close>










section \<open>The removed entities\<close>








section \<open>The added entities\<close>


















subsection \<open>The notes of the native sounds\<close>




section \<open>When update returns\<close>








section \<open>update\<close>







text \<open>
  Claim C8. A tracked entity whose scene node is null, with a sound on which \<^verbatim>\<open>play()\<close>
  was called: \<^verbatim>\<open>restoreSound\<close> returns without setting \<open>m_sound\<close>, and the branch of the
  pending changes calls \<^verbatim>\<open>setVolume\<close> through the null pointer, whatever the library
  answers.
\<close>

theorem update_null_scene_node_null_dereference:
  "update lib (ex_world ex_sound_played None []) = Inl NullDereference"
  by (simp add: ex_defs update_defs)

end
